theory Spec2Isabelle
  imports Complex_Main
begin

section \<open>JavaScript numbers\<close>

text \<open>
  The numbers of \<^verbatim>\<open>Rotate.js\<close> are JavaScript numbers. They are modelled as exact
  reals extended with the three special values that the arithmetic of the source can
  produce on finite inputs: a division by zero gives an infinity or NaN, and both are
  carried on by every later operation. Rounding, overflow and the sign of zero are not
  modelled: a finite number is a real, and zero stands for \<open>+0\<close>.
\<close>

datatype jsnum = Num real | PInf | NInf | NaN

fun js_neg :: "jsnum \<Rightarrow> jsnum" where
  "js_neg (Num a) = Num (- a)"
| "js_neg PInf = NInf"
| "js_neg NInf = PInf"
| "js_neg NaN = NaN"

fun js_add :: "jsnum \<Rightarrow> jsnum \<Rightarrow> jsnum" where
  "js_add NaN _ = NaN"
| "js_add _ NaN = NaN"
| "js_add PInf NInf = NaN"
| "js_add NInf PInf = NaN"
| "js_add PInf _ = PInf"
| "js_add _ PInf = PInf"
| "js_add NInf _ = NInf"
| "js_add _ NInf = NInf"
| "js_add (Num a) (Num b) = Num (a + b)"

definition js_sub :: "jsnum \<Rightarrow> jsnum \<Rightarrow> jsnum" where
  "js_sub a b = js_add a (js_neg b)"

fun js_mul :: "jsnum \<Rightarrow> jsnum \<Rightarrow> jsnum" where
  "js_mul NaN _ = NaN"
| "js_mul _ NaN = NaN"
| "js_mul PInf PInf = PInf"
| "js_mul PInf NInf = NInf"
| "js_mul NInf PInf = NInf"
| "js_mul NInf NInf = PInf"
| "js_mul PInf (Num b) = (if b = 0 then NaN else if 0 < b then PInf else NInf)"
| "js_mul NInf (Num b) = (if b = 0 then NaN else if 0 < b then NInf else PInf)"
| "js_mul (Num a) PInf = (if a = 0 then NaN else if 0 < a then PInf else NInf)"
| "js_mul (Num a) NInf = (if a = 0 then NaN else if 0 < a then NInf else PInf)"
| "js_mul (Num a) (Num b) = Num (a * b)"

fun js_div :: "jsnum \<Rightarrow> jsnum \<Rightarrow> jsnum" where
  "js_div NaN _ = NaN"
| "js_div _ NaN = NaN"
| "js_div PInf PInf = NaN"
| "js_div PInf NInf = NaN"
| "js_div NInf PInf = NaN"
| "js_div NInf NInf = NaN"
| "js_div PInf (Num b) = (if 0 \<le> b then PInf else NInf)"
| "js_div NInf (Num b) = (if 0 \<le> b then NInf else PInf)"
| "js_div (Num a) PInf = Num 0"
| "js_div (Num a) NInf = Num 0"
| "js_div (Num a) (Num b) =
     (if b \<noteq> 0 then Num (a / b)
      else if 0 < a then PInf else if a < 0 then NInf else NaN)"

text \<open>The comparison \<^verbatim>\<open>a > b\<close>: false as soon as one side is NaN.\<close>

fun js_gt :: "jsnum \<Rightarrow> jsnum \<Rightarrow> bool" where
  "js_gt NaN _ = False"
| "js_gt _ NaN = False"
| "js_gt (Num a) (Num b) = (b < a)"
| "js_gt PInf PInf = False"
| "js_gt PInf _ = True"
| "js_gt NInf _ = False"
| "js_gt (Num a) PInf = False"
| "js_gt (Num a) NInf = True"

definition js_lt :: "jsnum \<Rightarrow> jsnum \<Rightarrow> bool" where
  "js_lt a b = js_gt b a"

text \<open>\<^verbatim>\<open>Math.atan\<close> and \<^verbatim>\<open>Math.PI\<close>.\<close>

fun js_atan :: "jsnum \<Rightarrow> jsnum" where
  "js_atan (Num a) = Num (arctan a)"
| "js_atan PInf = Num (pi / 2)"
| "js_atan NInf = Num (- (pi / 2))"
| "js_atan NaN = NaN"

definition Math_PI :: jsnum where
  "Math_PI = Num pi"

text \<open>A coordinate is an array of two numbers: \<^verbatim>\<open>c[0]\<close> and \<^verbatim>\<open>c[1]\<close>.\<close>

type_synonym coord = "jsnum \<times> jsnum"

section \<open>The azimuth\<close>

text \<open>
  \<^verbatim>\<open>getAzimut(coordinate1, coordinate2)\<close>, lines 606 to 637. \<^verbatim>\<open>azimut\<close> starts at 0 and
  is assigned in four branches with strict comparisons; where none of them is taken the
  0 stays.
\<close>

definition getAzimut :: "coord \<Rightarrow> coord \<Rightarrow> jsnum" where
  "getAzimut coordinate1 coordinate2 =
     (let x1 = fst coordinate1;
          y1 = snd coordinate1;
          x2 = fst coordinate2;
          y2 = snd coordinate2;
          dx = js_sub x2 x1;
          dy = js_sub y2 y1;
          Az2 = js_atan (js_div dx dy);
          azimut =
            (if js_gt dx (Num 0) \<and> js_gt dy (Num 0) then Az2
             else if js_gt dx (Num 0) \<and> js_lt dy (Num 0) then js_add Az2 Math_PI
             else if js_lt dx (Num 0) \<and> js_lt dy (Num 0) then js_add Az2 Math_PI
             else if js_lt dx (Num 0) \<and> js_gt dy (Num 0)
               then js_add Az2 (js_mul (Num 2) Math_PI)
             else Num 0);
          azimutAng = js_div (js_mul azimut (Num 180)) Math_PI
      in azimutAng)"

text \<open>
  The rotation angle of a drag update, lines 367 and 368:
  \<^verbatim>\<open>angulo_final = (angulo_inicial - angulo) * -1\<close> and
  \<^verbatim>\<open>angulo_en_radiane = (angulo_final * Math.PI) / -180\<close>.
\<close>

definition angulo_en_radiane :: "jsnum \<Rightarrow> jsnum \<Rightarrow> jsnum" where
  "angulo_en_radiane angulo_inicial angulo =
     (let angulo_final = js_mul (js_sub angulo_inicial angulo) (Num (- 1))
      in js_div (js_mul angulo_final Math_PI) (Num (- 180)))"

section \<open>The pivot\<close>

text \<open>An extent is the array \<^verbatim>\<open>[minX, minY, maxX, maxY]\<close>.\<close>

type_synonym extent = "jsnum \<times> jsnum \<times> jsnum \<times> jsnum"

text \<open>\<^verbatim>\<open>getCenterOfExtent(Extent)\<close>, lines 536 to 540.\<close>

definition getCenterOfExtent :: "extent \<Rightarrow> coord" where
  "getCenterOfExtent Extent =
     (case Extent of (e0, e1, e2, e3) \<Rightarrow>
        let X = js_add e0 (js_div (js_sub e2 e0) (Num 2));
            Y = js_add e1 (js_div (js_sub e3 e1) (Num 2))
        in (X, Y))"

section \<open>Features and the state of the interaction\<close>

text \<open>
  \<^verbatim>\<open>Feature.getId()\<close> returns a string, a number or \<^verbatim>\<open>undefined\<close>. Numeric identifiers
  are taken to be integers, of a size that JavaScript prints digit by digit. Used as a
  property key of \<^verbatim>\<open>cartodi.feature_original\<close> an identifier is converted to a string.
  \<^verbatim>\<open>Array.prototype.includes\<close> does not convert it, so that among the keys, which are
  strings, only a string is found; and the comparisons with \<^verbatim>\<open>'PIVOTE_1_ID'\<close> (\<^verbatim>\<open>!==\<close> in
  line 317, \<^verbatim>\<open>==\<close> in line 384, where a number is compared with the NaN that the string
  converts to) hold for that string only.
\<close>

datatype feature_id = IdStr string | IdNum int | IdUndef

function nat_digits :: "nat \<Rightarrow> string" where
  "nat_digits n =
     (if n < 10 then [''0123456789'' ! n]
      else nat_digits (n div 10) @ [''0123456789'' ! (n mod 10)])"
  by pat_completeness auto
termination
  by (relation "measure (\<lambda>n. n)") auto

definition int_string :: "int \<Rightarrow> string" where
  "int_string i = (if i < 0 then CHR ''-'' # nat_digits (nat (- i)) else nat_digits (nat i))"

fun key_of :: "feature_id \<Rightarrow> string" where
  "key_of (IdStr s) = s"
| "key_of (IdNum n) = int_string n"
| "key_of IdUndef = ''undefined''"

definition PIVOTE_1_ID :: string where
  "PIVOTE_1_ID = ''PIVOTE_1_ID''"

text \<open>
  A feature is an object with an identifier and a geometry; \<^verbatim>\<open>getGeometry()\<close> is
  \<^verbatim>\<open>undefined\<close> for a feature without one. The geometry classes are not part of
  \<^verbatim>\<open>Rotate.js\<close>: a geometry is a value of a type \<open>'g\<close>, owned by one feature, and what the
  source calls on it is a parameter of the model (\<open>geometry_ops\<close> below).
  \<^verbatim>\<open>setGeometry\<close> is the update of the field.
\<close>

record 'g feature =
  getId :: feature_id
  getGeometry :: "'g option"

text \<open>
  \<^verbatim>\<open>Feature.clone()\<close> makes a new feature with a copy of the geometry. Of a clone stored in
  \<^verbatim>\<open>cartodi.feature_original\<close> the source reads the geometry only (line 391), so the
  cache keeps that: \<open>None\<close> for a clone without geometry.
\<close>

definition clone :: "'g feature \<Rightarrow> 'g option" where
  "clone f = getGeometry f"

datatype js_error = TypeError | OtherError

text \<open>
  The collaborators of the source that are not in \<^verbatim>\<open>Rotate.js\<close>:
  \<^verbatim>\<open>geometry.rotate(angle, anchor)\<close>, \<^verbatim>\<open>getCoordinates()\<close> of the pivot's geometry,
  \<^verbatim>\<open>new Point(c)\<close>, the extent of a fresh \<^verbatim>\<open>VectorSource\<close> filled with the features
  (lines 544 to 548, which may throw), and \<^verbatim>\<open>addFeature\<close> of the pivot's source.
\<close>

type_synonym addr = nat

record 'g geometry_ops =
  rotate_geom :: "jsnum \<Rightarrow> coord \<Rightarrow> 'g \<Rightarrow> 'g"
  getCoordinates :: "'g \<Rightarrow> coord"
  Point :: "coord \<Rightarrow> 'g"
  getExtent :: "'g feature option list \<Rightarrow> js_error + extent"
  addFeature :: "addr \<Rightarrow> addr list \<Rightarrow> js_error + addr list"

text \<open>
  The event handed to the handlers. \<open>atPixel\<close> lists what
  \<^verbatim>\<open>map.forEachFeatureAtPixel\<close> visits for the event's pixel under the interaction's
  layer filter and hit tolerance: the features (instances of \<^verbatim>\<open>Feature\<close>) with their
  layers, in order.
\<close>

record MapBrowserEvent =
  originalEvent :: bool
  coordinate :: coord
  atPixel :: "(addr \<times> nat) list"

datatype RotateEventType = ROTATESTART | ROTATING | ROTATEEND

record RotateEvent =
  eventType :: RotateEventType
  eventFeatures :: "addr option list"
  eventCoordinate :: coord
  eventStartCoordinate :: "coord option"
  mapBrowserEvent :: MapBrowserEvent

datatype null_field = Unset | Null

text \<open>
  The fields of a \<^verbatim>\<open>Rotate\<close> object (a name of the source that ends in an
  underscore is written here with a prime: \<^verbatim>\<open>lastCoordinate_\<close> is \<open>lastCoordinate'\<close>)
  that the handlers read or write, with the objects they reach: \<open>store\<close> holds the features by reference, \<open>feature_original\<close> and
  \<open>predioEdicionSelected\<close> are the two maps of \<^verbatim>\<open>this.cartodi\<close>, \<open>classList\<close> is the class
  list of the map's viewport, and \<open>dispatched\<close> lists the events given to
  \<^verbatim>\<open>dispatchEvent\<close>, oldest first. A collection is the list of its array.
\<close>

record 'g Rotate =
  lastCoordinate' :: "coord option"
  startCoordinate' :: "coord option"
  features' :: "addr list option"
  filter' :: "addr \<Rightarrow> nat \<Rightarrow> bool"
  condition' :: "MapBrowserEvent \<Rightarrow> bool"
  lastFeature' :: "addr option"
  pivote_1 :: addr
  source_cartodi_pivote' :: "addr list option"
  coordinate' :: "coord option"
  feature' :: null_field
  first' :: bool
  feature_original :: "string \<Rightarrow> 'g option option"
  predioEdicionSelected :: "string \<Rightarrow> addr option"
  store :: "addr \<Rightarrow> 'g feature"
  classList :: "string set"
  dispatched :: "RotateEvent list"

text \<open>
  \<^verbatim>\<open>this.features_ || new Collection([this.lastFeature_])\<close> and its \<^verbatim>\<open>getArray()\<close>:
  the element of the singleton is \<^verbatim>\<open>null\<close> or \<^verbatim>\<open>undefined\<close> when no feature was hit.
\<close>

definition featuresEdit :: "'g Rotate \<Rightarrow> addr option list" where
  "featuresEdit this =
     (case features' this of Some fs \<Rightarrow> map Some fs | None \<Rightarrow> [lastFeature' this])"

definition dispatchEvent :: "RotateEvent \<Rightarrow> 'g Rotate \<Rightarrow> 'g Rotate" where
  "dispatchEvent e this = this\<lparr>dispatched := dispatched this @ [e]\<rparr>"

text \<open>\<^verbatim>\<open>featuresAtPixel_(pixel, map)\<close>, lines 462 to 479.\<close>

definition featuresAtPixel' :: "'g Rotate \<Rightarrow> MapBrowserEvent \<Rightarrow> addr option" where
  "featuresAtPixel' this event =
     map_option fst
       (find (\<lambda>(feature, layer).
                filter' this feature layer \<and>
                (case features' this of None \<Rightarrow> True | Some fs \<Rightarrow> feature \<in> set fs))
          (atPixel event))"

text \<open>\<^verbatim>\<open>handleMoveEvent(event)\<close>, lines 440 to 451.\<close>

definition handleMoveEvent :: "MapBrowserEvent \<Rightarrow> 'g Rotate \<Rightarrow> 'g Rotate" where
  "handleMoveEvent event this =
     (if featuresAtPixel' this event \<noteq> None then
        this\<lparr>classList :=
          insert (if lastCoordinate' this \<noteq> None then ''ol-grabbing'' else ''ol-grab'')
            (classList this -
               {if lastCoordinate' this \<noteq> None then ''ol-grab'' else ''ol-grabbing''})\<rparr>
      else this\<lparr>classList := classList this - {''ol-grab'', ''ol-grabbing''}\<rparr>)"

text \<open>\<^verbatim>\<open>handleDownEvent(event)\<close>, lines 277 to 302.\<close>

definition handleDownEvent :: "MapBrowserEvent \<Rightarrow> 'g Rotate \<Rightarrow> bool \<times> 'g Rotate" where
  "handleDownEvent event this =
     (if \<not> originalEvent event \<or> \<not> condition' this event then (False, this)
      else
        let this1 = this\<lparr>coordinate' := Some (coordinate event)\<rparr>;
            this2 = this1\<lparr>lastFeature' := featuresAtPixel' this1 event\<rparr>
        in if lastCoordinate' this2 = None \<and> lastFeature' this2 \<noteq> None then
             let this3 = this2\<lparr>startCoordinate' := Some (coordinate event)\<rparr>;
                 this4 = this3\<lparr>lastCoordinate' := Some (coordinate event)\<rparr>;
                 this5 = handleMoveEvent event this4;
                 features = featuresEdit this5
             in (True,
                 dispatchEvent
                   \<lparr>eventType = ROTATESTART, eventFeatures = features,
                    eventCoordinate = coordinate event,
                    eventStartCoordinate = startCoordinate' this5,
                    mapBrowserEvent = event\<rparr> this5)
           else (False, this2))"

text \<open>
  The loop of \<^verbatim>\<open>handleUpEvent\<close>, lines 315 to 320. \<^verbatim>\<open>getId\<close> of an element that is
  \<^verbatim>\<open>null\<close> throws, and what was written before stays written.
\<close>

fun commit_features :: "addr option list \<Rightarrow> 'g Rotate \<Rightarrow> (js_error + unit) \<times> 'g Rotate" where
  "commit_features [] this = (Inr (), this)"
| "commit_features (None # rest) this = (Inl TypeError, this)"
| "commit_features (Some a # rest) this =
     (let fid = getId (store this a)
      in commit_features rest
           (if fid \<noteq> IdStr PIVOTE_1_ID then
              this\<lparr>feature_original :=
                (feature_original this)(key_of fid \<mapsto> clone (store this a))\<rparr>
            else this))"

text \<open>\<^verbatim>\<open>handleUpEvent(event)\<close>, lines 310 to 341.\<close>

definition handleUpEvent ::
  "MapBrowserEvent \<Rightarrow> 'g Rotate \<Rightarrow> (js_error + bool) \<times> 'g Rotate" where
  "handleUpEvent event this =
     (let this1 = this\<lparr>coordinate' := None\<rparr>;
          this2 = this1\<lparr>feature' := Null\<rparr>;
          features = featuresEdit this2
      in case commit_features features this2 of
           (Inl e, this3) \<Rightarrow> (Inl e, this3)
         | (Inr u, this3) \<Rightarrow>
             if lastCoordinate' this3 \<noteq> None then
               let this4 = this3\<lparr>lastCoordinate' := None\<rparr>;
                   this5 = handleMoveEvent event this4;
                   this6 = dispatchEvent
                     \<lparr>eventType = ROTATEEND, eventFeatures = features,
                      eventCoordinate = coordinate event,
                      eventStartCoordinate = startCoordinate' this5,
                      mapBrowserEvent = event\<rparr> this5
               in (Inr True, this6\<lparr>startCoordinate' := None\<rparr>)
             else (Inr False, this3))"

text \<open>
  \<^verbatim>\<open>llaves.includes(id)\<close>, line 389: \<^verbatim>\<open>llaves\<close> holds the keys, which are strings, and
  the identifier is compared without conversion.
\<close>

fun includes_id :: "string set \<Rightarrow> feature_id \<Rightarrow> bool" where
  "includes_id llaves (IdStr s) = (s \<in> llaves)"
| "includes_id llaves (IdNum n) = False"
| "includes_id llaves IdUndef = False"

text \<open>
  The body of the loop of \<^verbatim>\<open>handleDragEvent\<close>, lines 383 to 406, for an element that is
  a feature. In the first branch \<^verbatim>\<open>feature_original[id]\<close> is read as it is now;
  \<^verbatim>\<open>getGeometry().clone()\<close> throws for a clone without geometry, and
  \<^verbatim>\<open>geometria.rotate\<close> throws for a feature without geometry.
\<close>

definition rotate_feature ::
  "'g geometry_ops \<Rightarrow> jsnum \<Rightarrow> coord \<Rightarrow> string set \<Rightarrow> addr \<Rightarrow> 'g Rotate
     \<Rightarrow> (js_error + unit) \<times> 'g Rotate" where
  "rotate_feature G angulo centroide llaves a this =
     (let fid = getId (store this a)
      in if fid = IdStr PIVOTE_1_ID then (Inr (), this)
         else
           case
             (if includes_id llaves fid then
                (case feature_original this (key_of fid) of
                   None \<Rightarrow> Inl TypeError
                 | Some None \<Rightarrow> Inl TypeError
                 | Some (Some g) \<Rightarrow>
                     Inr (this\<lparr>store :=
                       (store this)(a := (store this a)\<lparr>getGeometry := Some g\<rparr>)\<rparr>))
              else
                Inr (this\<lparr>feature_original :=
                  (feature_original this)(key_of fid \<mapsto> clone (store this a))\<rparr>))
           of
             Inl e \<Rightarrow> (Inl e, this)
           | Inr this1 \<Rightarrow>
               let geometria = getGeometry (store this1 a);
                   this2 = this1\<lparr>predioEdicionSelected :=
                     (predioEdicionSelected this1)(key_of fid \<mapsto> a)\<rparr>
               in (case geometria of
                     None \<Rightarrow> (Inl TypeError, this2)
                   | Some g \<Rightarrow>
                       (Inr (),
                        this2\<lparr>store :=
                          (store this2)(a := (store this2 a)
                             \<lparr>getGeometry := Some (rotate_geom G angulo centroide g)\<rparr>)\<rparr>)))"

fun rotate_features ::
  "'g geometry_ops \<Rightarrow> jsnum \<Rightarrow> coord \<Rightarrow> string set \<Rightarrow> addr option list \<Rightarrow> 'g Rotate
     \<Rightarrow> (js_error + unit) \<times> 'g Rotate" where
  "rotate_features G angulo centroide llaves [] this = (Inr (), this)"
| "rotate_features G angulo centroide llaves (None # rest) this = (Inl TypeError, this)"
| "rotate_features G angulo centroide llaves (Some a # rest) this =
     (case rotate_feature G angulo centroide llaves a this of
        (Inl e, this1) \<Rightarrow> (Inl e, this1)
      | (Inr u, this1) \<Rightarrow> rotate_features G angulo centroide llaves rest this1)"

text \<open>
  \<^verbatim>\<open>handleDragEvent(event)\<close>, lines 348 to 433. The pivot's \<^verbatim>\<open>getGeometry()\<close> is
  \<^verbatim>\<open>undefined\<close> until \<^verbatim>\<open>refreshFeaturesPivotes\<close> has run, and reading
  \<^verbatim>\<open>this.coordinate_[0]\<close> throws when \<^verbatim>\<open>coordinate_\<close> is \<^verbatim>\<open>null\<close>.
\<close>

definition handleDragEvent ::
  "'g geometry_ops \<Rightarrow> MapBrowserEvent \<Rightarrow> 'g Rotate \<Rightarrow> (js_error + unit) \<times> 'g Rotate" where
  "handleDragEvent G event this =
     (if lastCoordinate' this \<noteq> None then
        let newCoordinate = coordinate event
        in (case getGeometry (store this (pivote_1 this)) of
              None \<Rightarrow> (Inl TypeError, this)
            | Some punto \<Rightarrow>
                (let centroide = getCoordinates G punto
                 in (case coordinate' this of
                       None \<Rightarrow> (Inl TypeError, this)
                     | Some start \<Rightarrow>
                         (let angulo_inicial = getAzimut centroide start;
                              angulo = getAzimut centroide newCoordinate;
                              radianes = angulo_en_radiane angulo_inicial angulo;
                              features = featuresEdit this;
                              llaves = dom (feature_original this)
                          in (case rotate_features G radianes centroide llaves features this of
                                (Inl e, this1) \<Rightarrow> (Inl e, this1)
                              | (Inr u, this1) \<Rightarrow>
                                  (let this2 = this1\<lparr>lastCoordinate' := Some newCoordinate\<rparr>
                                   in (Inr (),
                                       dispatchEvent
                                         \<lparr>eventType = ROTATING, eventFeatures = features,
                                          eventCoordinate = newCoordinate,
                                          eventStartCoordinate = startCoordinate' this2,
                                          mapBrowserEvent = event\<rparr> this2)))))))
      else (Inr (), this))"

text \<open>\<^verbatim>\<open>refreshFeaturesPivotes()\<close>, lines 541 to 563.\<close>

definition refreshFeaturesPivotes ::
  "'g geometry_ops \<Rightarrow> 'g Rotate \<Rightarrow> (js_error + unit) \<times> 'g Rotate" where
  "refreshFeaturesPivotes G this =
     (let features = featuresEdit this
      in (case getExtent G (map (map_option (store this)) features) of
            Inl e \<Rightarrow> (Inl e, this)
          | Inr extent \<Rightarrow>
              (let centro = getCenterOfExtent extent;
                   punto1 = Point G centro;
                   p = pivote_1 this;
                   this1 = this\<lparr>store :=
                     (store this)(p := (store this p)\<lparr>getGeometry := Some punto1\<rparr>)\<rparr>;
                   this2 = this1\<lparr>store :=
                     (store this1)(p := (store this1 p)\<lparr>getId := IdStr PIVOTE_1_ID\<rparr>)\<rparr>
               in (case source_cartodi_pivote' this2 of
                     None \<Rightarrow> (Inl TypeError, this2)
                   | Some pivote1 \<Rightarrow>
                       (case addFeature G p pivote1 of
                          Inl e \<Rightarrow> (Inl e, this2)
                        | Inr pivote1' \<Rightarrow>
                            (let this3 = this2\<lparr>source_cartodi_pivote' := Some pivote1'\<rparr>
                             in (Inr (),
                                 if first' this3 then this3\<lparr>first' := False\<rparr>
                                 else this3)))))))"

section \<open>An instance of the collaborators and a session\<close>

text \<open>
  For the examples a geometry is the list of its vertices. \<^verbatim>\<open>rotate\<close> turns every vertex
  about the anchor by the angle, counter-clockwise for a positive angle; the extent of
  a source starts from \<^verbatim>\<open>[Infinity, Infinity, -Infinity, -Infinity]\<close> and is extended by
  every vertex; a source holds a feature once.
\<close>

fun rotate_coord :: "jsnum \<Rightarrow> coord \<Rightarrow> coord \<Rightarrow> coord" where
  "rotate_coord (Num t) (Num ax, Num ay) (Num x, Num y) =
     (Num (ax + (x - ax) * cos t - (y - ay) * sin t),
      Num (ay + (x - ax) * sin t + (y - ay) * cos t))"
| "rotate_coord angle anchor c = (NaN, NaN)"

definition extendCoordinate :: "coord \<Rightarrow> extent \<Rightarrow> extent" where
  "extendCoordinate c e =
     (case e of (e0, e1, e2, e3) \<Rightarrow>
        (if js_lt (fst c) e0 then fst c else e0,
         if js_lt (snd c) e1 then snd c else e1,
         if js_gt (fst c) e2 then fst c else e2,
         if js_gt (snd c) e3 then snd c else e3))"

definition vertices_of :: "coord list feature option \<Rightarrow> coord list" where
  "vertices_of f =
     (case f of None \<Rightarrow> []
      | Some f' \<Rightarrow> (case getGeometry f' of None \<Rightarrow> [] | Some g \<Rightarrow> g))"

definition vertices_extent :: "coord list feature option list \<Rightarrow> js_error + extent" where
  "vertices_extent fs =
     (if None \<in> set fs then Inl TypeError
      else Inr (fold extendCoordinate (concat (map vertices_of fs)) (PInf, PInf, NInf, NInf)))"

definition vertex_ops :: "coord list geometry_ops" where
  "vertex_ops =
     \<lparr>rotate_geom = (\<lambda>angle anchor g. map (rotate_coord angle anchor) g),
      getCoordinates = (\<lambda>g. case g of [] \<Rightarrow> (NaN, NaN) | c # cs \<Rightarrow> c),
      Point = (\<lambda>c. [c]),
      getExtent = vertices_extent,
      addFeature = (\<lambda>a src. Inr (if a \<in> set src then src else src @ [a]))\<rparr>"

text \<open>
  Three features: the pivot marker at address 0, a segment \<open>F1\<close> at address 1, and at
  address 2 a feature of the caller whose identifier happens to be \<^verbatim>\<open>'PIVOTE_1_ID'\<close>.
\<close>

definition example_store :: "addr \<Rightarrow> coord list feature" where
  "example_store a =
     (if a = 0 then \<lparr>getId = IdStr PIVOTE_1_ID, getGeometry = Some [(Num 0, Num 0)]\<rparr>
      else if a = 1 then
        \<lparr>getId = IdStr ''F1'', getGeometry = Some [(Num 1, Num 0), (Num 3, Num 2)]\<rparr>
      else if a = 2 then
        \<lparr>getId = IdStr PIVOTE_1_ID, getGeometry = Some [(Num 5, Num 5)]\<rparr>
      else \<lparr>getId = IdUndef, getGeometry = None\<rparr>)"

text \<open>
  A session opened by a press at (1, 1), with the three features in the collection and
  the baseline of \<open>F1\<close> in the cache; and the same interaction idle, with an empty cache.
\<close>

definition dragging :: "coord list Rotate" where
  "dragging =
     \<lparr>lastCoordinate' = Some (Num 1, Num 1),
      startCoordinate' = Some (Num 1, Num 1),
      features' = Some [1, 2, 0],
      filter' = (\<lambda>feature layer. True),
      condition' = (\<lambda>event. True),
      lastFeature' = Some 1,
      pivote_1 = 0,
      source_cartodi_pivote' = Some [0],
      coordinate' = Some (Num 1, Num 1),
      feature' = Unset,
      first' = False,
      feature_original = [''F1'' \<mapsto> Some [(Num 1, Num 0), (Num 3, Num 2)]],
      predioEdicionSelected = Map.empty,
      store = example_store,
      classList = {''ol-grabbing''},
      dispatched = []\<rparr>"

definition idle :: "coord list Rotate" where
  "idle =
     dragging\<lparr>lastCoordinate' := None, startCoordinate' := None, coordinate' := None,
       feature_original := Map.empty, classList := {''ol-grab''}\<rparr>"

definition pointer :: "coord \<Rightarrow> MapBrowserEvent" where
  "pointer c = \<lparr>originalEvent = True, coordinate = c, atPixel = [(1, 0)]\<rparr>"

section \<open>Properties of the azimuth\<close>

lemma getAzimut_Num:
  "getAzimut (Num x1, Num y1) (Num x2, Num y2) =
     (let dx = x2 - x1; dy = y2 - y1 in
      if 0 < dx \<and> 0 < dy then Num (arctan (dx / dy) * 180 / pi)
      else if 0 < dx \<and> dy < 0 then Num ((arctan (dx / dy) + pi) * 180 / pi)
      else if dx < 0 \<and> dy < 0 then Num ((arctan (dx / dy) + pi) * 180 / pi)
      else if dx < 0 \<and> 0 < dy then Num ((arctan (dx / dy) + 2 * pi) * 180 / pi)
      else Num 0)"
  by (simp add: getAzimut_def js_sub_def js_lt_def Math_PI_def Let_def)

lemma getAzimut_on_axis:
  "x2 = x1 \<or> y2 = y1 \<Longrightarrow> getAzimut (Num x1, Num y1) (Num x2, Num y2) = Num 0"
  by (auto simp add: getAzimut_Num)

text \<open>
  Claim C4. On an axis (\<open>dx = 0\<close> or \<open>dy = 0\<close>) none of the four branches of
  \<^verbatim>\<open>getAzimut\<close> is taken and the result is the initial 0: due north gives 0, but due
  east, due south and due west give 0 as well, where the limits of the quadrant rule
  are 90, 180 and 270.
\<close>

theorem getAzimut_axis_cases:
  "getAzimut (Num 0, Num 0) (Num 0, Num 10) = Num 0 \<and>
   getAzimut (Num 0, Num 0) (Num 10, Num 0) = Num 0 \<and>
   getAzimut (Num 0, Num 0) (Num 0, Num (- 10)) = Num 0 \<and>
   getAzimut (Num 0, Num 0) (Num (- 10), Num 0) = Num 0"
  by (simp add: getAzimut_Num)






lemma angulo_en_radiane_Num:
  "angulo_en_radiane (Num s) (Num c) = Num ((s - c) * pi / 180)"
  by (simp add: angulo_en_radiane_def js_sub_def Math_PI_def field_simps)

section \<open>The rotation angle\<close>

text \<open>
  Claim C1, as the code has it. With start azimuth \<open>s\<close> and current azimuth \<open>c\<close> in
  degrees, the angle handed to \<^verbatim>\<open>rotate\<close> is \<open>(s - c) * \<pi> / 180\<close> radians: the source
  negates twice, multiplying by \<open>-1\<close> and dividing by \<open>-180\<close>.
\<close>

theorem rotation_angle_sign:
  "angulo_en_radiane (Num s) (Num c) = Num ((s - c) * pi / 180)"
  by (simp add: angulo_en_radiane_def js_sub_def Math_PI_def field_simps)

text \<open>
  Claim C1, as stated, at start azimuth 90 and current azimuth 0: the code rotates by
  \<open>\<pi> / 2\<close>, and not by \<open>- (90 - 0) * \<pi> / 180\<close>.
\<close>

theorem rotation_angle_not_negated:
  "angulo_en_radiane (Num 90) (Num 0) = Num (pi / 2) \<and>
   angulo_en_radiane (Num 90) (Num 0) \<noteq> Num (- (90 - 0) * pi / 180)"
  by (simp add: angulo_en_radiane_Num)

section \<open>No undefined angle\<close>




section \<open>The pivot is the centre of the extent\<close>


lemma refreshFeaturesPivotes_geometry:
  "getExtent G (map (map_option (store this)) (featuresEdit this)) = Inr e \<Longrightarrow>
   getGeometry (store (snd (refreshFeaturesPivotes G this)) (pivote_1 this)) =
     Some (Point G (getCenterOfExtent e)) \<and>
   getId (store (snd (refreshFeaturesPivotes G this)) (pivote_1 this)) = IdStr PIVOTE_1_ID \<and>
   pivote_1 (snd (refreshFeaturesPivotes G this)) = pivote_1 this"
  by (simp add: refreshFeaturesPivotes_def Let_def split: option.split sum.split)


lemma example_extent:
  "getExtent vertex_ops (map (map_option (store idle)) (featuresEdit idle)) =
     Inr (Num 0, Num 0, Num 5, Num 5)"
  by (simp add: vertex_ops_def idle_def dragging_def featuresEdit_def example_store_def
      vertices_extent_def vertices_of_def extendCoordinate_def js_lt_def)



section \<open>Property keys\<close>

text \<open>
  No identifier other than the string \<^verbatim>\<open>'PIVOTE_1_ID'\<close> has that string as its property
  key: the key of a number is made of digits and a sign.
\<close>

declare nat_digits.simps [simp del]

lemma digit_not_P: "k < 10 \<Longrightarrow> ''0123456789'' ! k \<noteq> CHR ''P''"
proof -
  assume "k < 10"
  then have "''0123456789'' ! k \<in> set ''0123456789''"
    by (intro nth_mem) simp
  moreover have "CHR ''P'' \<notin> set ''0123456789''" by simp
  ultimately show ?thesis by metis
qed

lemma nat_digits_no_P: "CHR ''P'' \<notin> set (nat_digits n)"
proof (induction n rule: nat_digits.induct)
  case (1 n)
  show ?case
  proof (cases "n < 10")
    case True
    have "nat_digits n = [''0123456789'' ! n]"
      using True by (subst nat_digits.simps) (simp only: if_True)
    then show ?thesis using digit_not_P [OF True] by auto
  next
    case False
    have m: "n mod 10 < 10" by simp
    have "nat_digits n = nat_digits (n div 10) @ [''0123456789'' ! (n mod 10)]"
      using False by (subst nat_digits.simps) (simp only: if_False)
    then show ?thesis using digit_not_P [OF m] "1.IH" [OF False] by auto
  qed
qed

lemma key_of_pivot: "key_of fid = PIVOTE_1_ID \<Longrightarrow> fid = IdStr PIVOTE_1_ID"
proof (cases fid)
  case (IdStr s)
  assume "key_of fid = PIVOTE_1_ID"
  with IdStr show ?thesis by simp
next
  case (IdNum n)
  assume k: "key_of fid = PIVOTE_1_ID"
  have "CHR ''P'' \<notin> set (int_string n)"
    using nat_digits_no_P [of "nat n"] nat_digits_no_P [of "nat (- n)"]
    by (simp add: int_string_def)
  moreover have "CHR ''P'' \<in> set (int_string n)"
    using k IdNum by (simp add: PIVOTE_1_ID_def)
  ultimately show ?thesis by simp
next
  case IdUndef
  assume "key_of fid = PIVOTE_1_ID"
  with IdUndef show ?thesis by (simp add: PIVOTE_1_ID_def)
qed


section \<open>The loop of the release\<close>

text \<open>
  The loop writes \<open>feature_original\<close> and nothing else; it leaves alone every key that
  is not the key of a feature it commits, and after a complete run the entry of a
  committed feature is the clone of a feature of the array that has the same key (of
  the last one).
\<close>

lemma commit_features_frame:
  "\<exists>m. snd (commit_features xs this) = this\<lparr>feature_original := m\<rparr>"
proof (induction xs arbitrary: this)
  case Nil
  have "snd (commit_features [] this) = this\<lparr>feature_original := feature_original this\<rparr>"
    by simp
  then show ?case by blast
next
  case (Cons x xs)
  show ?case
  proof (cases x)
    case None
    have "snd (commit_features (None # xs) this) =
        this\<lparr>feature_original := feature_original this\<rparr>"
      by simp
    with None show ?thesis by blast
  next
    case (Some a)
    define mid where "mid = (if getId (store this a) \<noteq> IdStr PIVOTE_1_ID then
          this\<lparr>feature_original :=
            (feature_original this)(key_of (getId (store this a)) \<mapsto> clone (store this a))\<rparr>
        else this)"
    from Cons.IH [of mid] obtain m where
      m: "snd (commit_features xs mid) = mid\<lparr>feature_original := m\<rparr>" by blast
    have "snd (commit_features (x # xs) this) = snd (commit_features xs mid)"
      using Some by (simp add: mid_def Let_def)
    also have "\<dots> = this\<lparr>feature_original := m\<rparr>"
      unfolding m by (simp add: mid_def)
    finally show ?thesis by blast
  qed
qed

lemma commit_features_store: "store (snd (commit_features xs this)) = store this"
proof -
  obtain m where "snd (commit_features xs this) = this\<lparr>feature_original := m\<rparr>"
    using commit_features_frame by blast
  then show ?thesis by simp
qed


lemma commit_features_untouched:
  "\<forall>b. Some b \<in> set xs \<longrightarrow>
      getId (store this b) = IdStr PIVOTE_1_ID \<or> key_of (getId (store this b)) \<noteq> k \<Longrightarrow>
   feature_original (snd (commit_features xs this)) k = feature_original this k"
proof (induction xs arbitrary: this)
  case Nil
  show ?case by simp
next
  case (Cons x xs)
  show ?case
  proof (cases x)
    case None
    then show ?thesis by simp
  next
    case (Some a)
    define mid where "mid = (if getId (store this a) \<noteq> IdStr PIVOTE_1_ID then
          this\<lparr>feature_original :=
            (feature_original this)(key_of (getId (store this a)) \<mapsto> clone (store this a))\<rparr>
        else this)"
    have st: "store mid = store this" by (simp add: mid_def)
    have step: "snd (commit_features (x # xs) this) = snd (commit_features xs mid)"
      using Some by (simp add: mid_def Let_def)
    have "\<forall>b. Some b \<in> set xs \<longrightarrow>
      getId (store mid b) = IdStr PIVOTE_1_ID \<or> key_of (getId (store mid b)) \<noteq> k"
      using Cons.prems by (simp add: st)
    from Cons.IH [OF this]
    have "feature_original (snd (commit_features xs mid)) k = feature_original mid k" .
    moreover have "feature_original mid k = feature_original this k"
      using Cons.prems Some by (auto simp add: mid_def)
    ultimately show ?thesis by (simp add: step)
  qed
qed



section \<open>Release without a session\<close>

lemma featuresEdit_release:
  "featuresEdit (this\<lparr>coordinate' := None, feature' := Null\<rparr>) = featuresEdit this"
  by (simp add: featuresEdit_def split: option.split)

lemma handleUpEvent_unfold:
  "commit_features (featuresEdit this) (this\<lparr>coordinate' := None, feature' := Null\<rparr>) =
     (r, post) \<Longrightarrow>
   handleUpEvent event this =
     (case r of
        Inl e \<Rightarrow> (Inl e, post)
      | Inr u \<Rightarrow>
          if lastCoordinate' post \<noteq> None then
            (Inr True,
             (dispatchEvent
                \<lparr>eventType = ROTATEEND, eventFeatures = featuresEdit this,
                 eventCoordinate = coordinate event,
                 eventStartCoordinate =
                   startCoordinate' (handleMoveEvent event (post\<lparr>lastCoordinate' := None\<rparr>)),
                 mapBrowserEvent = event\<rparr>
                (handleMoveEvent event (post\<lparr>lastCoordinate' := None\<rparr>)))
             \<lparr>startCoordinate' := None\<rparr>)
          else (Inr False, post))"
  by (simp add: handleUpEvent_def Let_def featuresEdit_release split: sum.split)

lemma handleUpEvent_commit:
  "feature_original (snd (handleUpEvent event this)) =
     feature_original (snd (commit_features (featuresEdit this)
       (this\<lparr>coordinate' := None, feature' := Null\<rparr>))) \<and>
   store (snd (handleUpEvent event this)) = store this"
proof -
  obtain r post where c: "commit_features (featuresEdit this)
      (this\<lparr>coordinate' := None, feature' := Null\<rparr>) = (r, post)"
    by (cases "commit_features (featuresEdit this)
      (this\<lparr>coordinate' := None, feature' := Null\<rparr>)")
  have "store post = store this"
    using commit_features_store [of "featuresEdit this"
        "this\<lparr>coordinate' := None, feature' := Null\<rparr>"]
    by (simp add: c)
  then show ?thesis
    by (simp add: handleUpEvent_unfold [OF c] c handleMoveEvent_def dispatchEvent_def
        split: sum.split)
qed






section \<open>Press during a session\<close>

text \<open>
  Claim C3, as the code has it. A press that satisfies the condition while
  \<^verbatim>\<open>lastCoordinate_\<close> is set returns \<^verbatim>\<open>false\<close>, dispatches nothing and leaves
  \<^verbatim>\<open>lastCoordinate_\<close>, \<^verbatim>\<open>startCoordinate_\<close>, the features, the cache and the class list
  as they are; but lines 281 and 282 run before the test of \<^verbatim>\<open>lastCoordinate_\<close>, so
  \<^verbatim>\<open>coordinate_\<close> becomes the coordinate of the press and \<^verbatim>\<open>lastFeature_\<close> the feature
  found at its pixel (when the event has an \<^verbatim>\<open>originalEvent\<close>; without one nothing
  changes).
\<close>

theorem handleDownEvent_session_open:
  "lastCoordinate' this \<noteq> None \<and> condition' this event \<longrightarrow>
   handleDownEvent event this =
     (False,
      if originalEvent event then
        this\<lparr>coordinate' := Some (coordinate event),
          lastFeature' := featuresAtPixel' this event\<rparr>
      else this)"
  by (auto simp add: handleDownEvent_def Let_def featuresAtPixel'_def)

text \<open>The session of the example, pressed again at (-1, 1).\<close>

theorem handleDownEvent_session_open_example:
  "lastCoordinate' dragging \<noteq> None \<and> condition' dragging (pointer (Num (- 1), Num 1)) \<and>
   handleDownEvent (pointer (Num (- 1), Num 1)) dragging =
     (False, dragging\<lparr>coordinate' := Some (Num (- 1), Num 1), lastFeature' := Some 1\<rparr>)"
  using handleDownEvent_session_open [of dragging "pointer (Num (- 1), Num 1)"]
  by (simp add: dragging_def pointer_def featuresAtPixel'_def)

text \<open>
  Claim C3, as stated, on the session of the example: a second press at (-1, 1) over the
  feature at address 2 is not consumed, and it replaces the stored press coordinate
  (1, 1) and the last feature.
\<close>

theorem handleDownEvent_overwrites_press_coordinate:
  "lastCoordinate' dragging \<noteq> None \<and>
   condition' dragging ((pointer (Num (- 1), Num 1))\<lparr>atPixel := [(2, 0)]\<rparr>) \<and>
   fst (handleDownEvent ((pointer (Num (- 1), Num 1))\<lparr>atPixel := [(2, 0)]\<rparr>) dragging) = False \<and>
   coordinate' dragging = Some (Num 1, Num 1) \<and>
   coordinate' (snd (handleDownEvent ((pointer (Num (- 1), Num 1))\<lparr>atPixel := [(2, 0)]\<rparr>) dragging)) =
     Some (Num (- 1), Num 1) \<and>
   lastFeature' dragging = Some 1 \<and>
   lastFeature' (snd (handleDownEvent ((pointer (Num (- 1), Num 1))\<lparr>atPixel := [(2, 0)]\<rparr>) dragging)) =
     Some 2"
  by (simp add: handleDownEvent_def Let_def dragging_def pointer_def featuresAtPixel'_def)

section \<open>The loop of the drag update\<close>


lemma rotate_feature_pivot:
  "getId (store this a) = IdStr PIVOTE_1_ID \<Longrightarrow>
   rotate_feature G angulo centroide llaves a this = (Inr (), this)"
  by (simp add: rotate_feature_def)

lemma rotate_feature_other:
  "b \<noteq> a \<Longrightarrow> store (snd (rotate_feature G angulo centroide llaves a this)) b = store this b"
  by (simp add: rotate_feature_def Let_def split: option.split)

lemma rotate_feature_getId:
  "getId (store (snd (rotate_feature G angulo centroide llaves a this)) b) = getId (store this b)"
  by (simp add: rotate_feature_def Let_def split: option.split)

lemma rotate_feature_cache:
  "key_of (getId (store this a)) \<noteq> k \<or> includes_id llaves (getId (store this a)) \<or>
     getId (store this a) = IdStr PIVOTE_1_ID \<Longrightarrow>
   feature_original (snd (rotate_feature G angulo centroide llaves a this)) k =
     feature_original this k"
  by (auto simp add: rotate_feature_def Let_def split: option.split)

lemma rotate_feature_selected:
  "key_of (getId (store this a)) \<noteq> k \<or> getId (store this a) = IdStr PIVOTE_1_ID \<Longrightarrow>
   predioEdicionSelected (snd (rotate_feature G angulo centroide llaves a this)) k =
     predioEdicionSelected this k"
  by (auto simp add: rotate_feature_def Let_def split: option.split)



lemma rotate_features_Cons:
  "rotate_features G angulo centroide llaves (Some a # rest) this =
     (if fst (rotate_feature G angulo centroide llaves a this) = Inr () then
        rotate_features G angulo centroide llaves rest
          (snd (rotate_feature G angulo centroide llaves a this))
      else (fst (rotate_feature G angulo centroide llaves a this),
            snd (rotate_feature G angulo centroide llaves a this)))"
  by (cases "rotate_feature G angulo centroide llaves a this")
    (auto split: sum.split)

declare rotate_features.simps(3) [simp del]



lemma rotate_features_pivot:
  "getId (store this b) = IdStr PIVOTE_1_ID \<Longrightarrow>
   store (snd (rotate_features G angulo centroide llaves xs this)) b = store this b"
proof (induction xs arbitrary: this)
  case Nil
  show ?case by simp
next
  case (Cons x xs)
  show ?case
  proof (cases x)
    case None
    then show ?thesis by simp
  next
    case (Some a)
    define mid where "mid = snd (rotate_feature G angulo centroide llaves a this)"
    have keep: "store mid b = store this b"
    proof (cases "b = a")
      case True
      then show ?thesis using Cons.prems by (simp add: mid_def rotate_feature_pivot)
    next
      case False
      then show ?thesis by (simp add: mid_def rotate_feature_other)
    qed
    then have "getId (store mid b) = IdStr PIVOTE_1_ID" using Cons.prems by simp
    from Cons.IH [OF this] keep Some show ?thesis
      by (simp add: rotate_features_Cons mid_def [symmetric])
  qed
qed


lemma rotate_features_cache:
  "\<forall>b. Some b \<in> set xs \<longrightarrow>
      key_of (getId (store this b)) \<noteq> k \<or> includes_id llaves (getId (store this b)) \<or>
      getId (store this b) = IdStr PIVOTE_1_ID \<Longrightarrow>
   feature_original (snd (rotate_features G angulo centroide llaves xs this)) k =
     feature_original this k"
proof (induction xs arbitrary: this)
  case Nil
  show ?case by simp
next
  case (Cons x xs)
  show ?case
  proof (cases x)
    case None
    then show ?thesis by simp
  next
    case (Some a)
    define mid where "mid = snd (rotate_feature G angulo centroide llaves a this)"
    have ids: "\<And>b. getId (store mid b) = getId (store this b)"
      by (simp add: mid_def rotate_feature_getId)
    have "key_of (getId (store this a)) \<noteq> k \<or> includes_id llaves (getId (store this a)) \<or>
      getId (store this a) = IdStr PIVOTE_1_ID"
      using Cons.prems Some by simp
    from rotate_feature_cache [OF this]
    have keep: "feature_original mid k = feature_original this k" by (simp add: mid_def)
    have "\<forall>b. Some b \<in> set xs \<longrightarrow>
      key_of (getId (store mid b)) \<noteq> k \<or> includes_id llaves (getId (store mid b)) \<or>
      getId (store mid b) = IdStr PIVOTE_1_ID"
      using Cons.prems by (simp add: ids)
    from Cons.IH [OF this] keep Some show ?thesis
      by (simp add: rotate_features_Cons mid_def [symmetric])
  qed
qed

lemma rotate_features_selected:
  "\<forall>b. Some b \<in> set xs \<longrightarrow>
      key_of (getId (store this b)) \<noteq> k \<or> getId (store this b) = IdStr PIVOTE_1_ID \<Longrightarrow>
   predioEdicionSelected (snd (rotate_features G angulo centroide llaves xs this)) k =
     predioEdicionSelected this k"
proof (induction xs arbitrary: this)
  case Nil
  show ?case by simp
next
  case (Cons x xs)
  show ?case
  proof (cases x)
    case None
    then show ?thesis by simp
  next
    case (Some a)
    define mid where "mid = snd (rotate_feature G angulo centroide llaves a this)"
    have ids: "\<And>b. getId (store mid b) = getId (store this b)"
      by (simp add: mid_def rotate_feature_getId)
    have "key_of (getId (store this a)) \<noteq> k \<or> getId (store this a) = IdStr PIVOTE_1_ID"
      using Cons.prems Some by simp
    from rotate_feature_selected [OF this]
    have keep: "predioEdicionSelected mid k = predioEdicionSelected this k"
      by (simp add: mid_def)
    have "\<forall>b. Some b \<in> set xs \<longrightarrow>
      key_of (getId (store mid b)) \<noteq> k \<or> getId (store mid b) = IdStr PIVOTE_1_ID"
      using Cons.prems by (simp add: ids)
    from Cons.IH [OF this] keep Some show ?thesis
      by (simp add: rotate_features_Cons mid_def [symmetric])
  qed
qed



section \<open>The drag update\<close>

lemma handleDragEvent_unfold:
  "lastCoordinate' this \<noteq> None \<Longrightarrow>
   getGeometry (store this (pivote_1 this)) = Some punto \<Longrightarrow>
   coordinate' this = Some start \<Longrightarrow>
   rotate_features G
     (angulo_en_radiane (getAzimut (getCoordinates G punto) start)
        (getAzimut (getCoordinates G punto) (coordinate event)))
     (getCoordinates G punto) (dom (feature_original this)) (featuresEdit this) this = (r, t) \<Longrightarrow>
   handleDragEvent G event this =
     (case r of
        Inl e \<Rightarrow> (Inl e, t)
      | Inr u \<Rightarrow>
          (Inr (),
           dispatchEvent
             \<lparr>eventType = ROTATING, eventFeatures = featuresEdit this,
              eventCoordinate = coordinate event,
              eventStartCoordinate = startCoordinate' t,
              mapBrowserEvent = event\<rparr>
             (t\<lparr>lastCoordinate' := Some (coordinate event)\<rparr>)))"
  by (simp add: handleDragEvent_def Let_def split: sum.split)

lemma handleDragEvent_effect:
  "(store (snd (handleDragEvent G event this)) = store this \<and>
    feature_original (snd (handleDragEvent G event this)) = feature_original this \<and>
    predioEdicionSelected (snd (handleDragEvent G event this)) = predioEdicionSelected this) \<or>
   (\<exists>angulo centroide.
      store (snd (handleDragEvent G event this)) =
        store (snd (rotate_features G angulo centroide (dom (feature_original this))
          (featuresEdit this) this)) \<and>
      feature_original (snd (handleDragEvent G event this)) =
        feature_original (snd (rotate_features G angulo centroide (dom (feature_original this))
          (featuresEdit this) this)) \<and>
      predioEdicionSelected (snd (handleDragEvent G event this)) =
        predioEdicionSelected (snd (rotate_features G angulo centroide
          (dom (feature_original this)) (featuresEdit this) this)))"
proof (cases "lastCoordinate' this \<noteq> None")
  case False
  then show ?thesis by (simp add: handleDragEvent_def)
next
  case op: True
  show ?thesis
  proof (cases "getGeometry (store this (pivote_1 this))")
    case None
    then show ?thesis using op by (simp add: handleDragEvent_def)
  next
    case (Some punto)
    note punto = Some
    show ?thesis
    proof (cases "coordinate' this")
      case None
      then show ?thesis using op punto by (simp add: handleDragEvent_def Let_def)
    next
      case (Some start)
      define angulo where "angulo = angulo_en_radiane (getAzimut (getCoordinates G punto) start)
        (getAzimut (getCoordinates G punto) (coordinate event))"
      obtain r t where rt: "rotate_features G angulo (getCoordinates G punto)
          (dom (feature_original this)) (featuresEdit this) this = (r, t)"
        by (cases "rotate_features G angulo (getCoordinates G punto)
          (dom (feature_original this)) (featuresEdit this) this")
      have "store (snd (handleDragEvent G event this)) = store t \<and>
        feature_original (snd (handleDragEvent G event this)) = feature_original t \<and>
        predioEdicionSelected (snd (handleDragEvent G event this)) = predioEdicionSelected t"
        using handleDragEvent_unfold [OF op punto Some rt [unfolded angulo_def]]
        by (simp add: dispatchEvent_def split: sum.split)
      then have "store (snd (handleDragEvent G event this)) =
        store (snd (rotate_features G angulo (getCoordinates G punto)
          (dom (feature_original this)) (featuresEdit this) this)) \<and>
      feature_original (snd (handleDragEvent G event this)) =
        feature_original (snd (rotate_features G angulo (getCoordinates G punto)
          (dom (feature_original this)) (featuresEdit this) this)) \<and>
      predioEdicionSelected (snd (handleDragEvent G event this)) =
        predioEdicionSelected (snd (rotate_features G angulo (getCoordinates G punto)
          (dom (feature_original this)) (featuresEdit this) this))"
        by (simp add: rt)
      then show ?thesis by blast
    qed
  qed
qed

lemma handleDragEvent_pivot:
  assumes "getId (store this a) = IdStr PIVOTE_1_ID"
  shows "store (snd (handleDragEvent G event this)) a = store this a \<and>
    feature_original (snd (handleDragEvent G event this)) PIVOTE_1_ID =
      feature_original this PIVOTE_1_ID \<and>
    predioEdicionSelected (snd (handleDragEvent G event this)) PIVOTE_1_ID =
      predioEdicionSelected this PIVOTE_1_ID"
proof -
  have c: "\<forall>b. Some b \<in> set (featuresEdit this) \<longrightarrow>
      key_of (getId (store this b)) \<noteq> PIVOTE_1_ID \<or>
      includes_id llaves (getId (store this b)) \<or>
      getId (store this b) = IdStr PIVOTE_1_ID" for llaves
    using key_of_pivot by blast
  have p: "\<forall>b. Some b \<in> set (featuresEdit this) \<longrightarrow>
      key_of (getId (store this b)) \<noteq> PIVOTE_1_ID \<or> getId (store this b) = IdStr PIVOTE_1_ID"
    using key_of_pivot by blast
  from handleDragEvent_effect [of G event this] show ?thesis
    using rotate_features_pivot [OF assms] rotate_features_cache [OF c]
      rotate_features_selected [OF p]
    by auto
qed

lemma handleUpEvent_pivot:
  "store (snd (handleUpEvent event this)) = store this \<and>
   feature_original (snd (handleUpEvent event this)) PIVOTE_1_ID =
     feature_original this PIVOTE_1_ID"
proof -
  have "\<forall>b. Some b \<in> set (featuresEdit this) \<longrightarrow>
      getId (store (this\<lparr>coordinate' := None, feature' := Null\<rparr>) b) = IdStr PIVOTE_1_ID \<or>
      key_of (getId (store (this\<lparr>coordinate' := None, feature' := Null\<rparr>) b)) \<noteq> PIVOTE_1_ID"
    using key_of_pivot by blast
  from commit_features_untouched [OF this] show ?thesis
    by (simp add: handleUpEvent_commit)
qed

text \<open>
  Claim C7. A feature whose identifier is the pivot marker's, \<^verbatim>\<open>'PIVOTE_1_ID'\<close>, is left
  as it is by a drag update (its geometry is neither restored nor rotated nor assigned,
  whether or not it is in the collection, and also when the update throws), and neither
  handler writes an entry of \<^verbatim>\<open>feature_original\<close> or \<^verbatim>\<open>predioEdicionSelected\<close> under its
  key; a release changes no feature at all.
\<close>

theorem pivot_marker_is_skipped:
  "getId (store this a) = IdStr PIVOTE_1_ID \<longrightarrow>
     store (snd (handleDragEvent G event this)) a = store this a \<and>
     feature_original (snd (handleDragEvent G event this)) (key_of (getId (store this a))) =
       feature_original this (key_of (getId (store this a))) \<and>
     predioEdicionSelected (snd (handleDragEvent G event this)) (key_of (getId (store this a))) =
       predioEdicionSelected this (key_of (getId (store this a))) \<and>
     store (snd (handleUpEvent event this)) a = store this a \<and>
     feature_original (snd (handleUpEvent event this)) (key_of (getId (store this a))) =
       feature_original this (key_of (getId (store this a)))"
proof
  assume p: "getId (store this a) = IdStr PIVOTE_1_ID"
  then have k: "key_of (getId (store this a)) = PIVOTE_1_ID" by simp
  show "store (snd (handleDragEvent G event this)) a = store this a \<and>
     feature_original (snd (handleDragEvent G event this)) (key_of (getId (store this a))) =
       feature_original this (key_of (getId (store this a))) \<and>
     predioEdicionSelected (snd (handleDragEvent G event this)) (key_of (getId (store this a))) =
       predioEdicionSelected this (key_of (getId (store this a))) \<and>
     store (snd (handleUpEvent event this)) a = store this a \<and>
     feature_original (snd (handleUpEvent event this)) (key_of (getId (store this a))) =
       feature_original this (key_of (getId (store this a)))"
    unfolding k using handleDragEvent_pivot [OF p, of G event] handleUpEvent_pivot [of event this]
    by simp
qed


section \<open>The session of the example\<close>

lemmas example_defs = handleDragEvent_def Let_def dragging_def pointer_def featuresEdit_def
  example_store_def vertex_ops_def rotate_feature_def rotate_features.simps PIVOTE_1_ID_def
  dispatchEvent_def clone_def

lemma example_azimuths:
  "getAzimut (Num 0, Num 0) (Num 1, Num 1) = Num 45"
  "getAzimut (Num 0, Num 0) (Num 1, Num (- 1)) = Num 135"
  "getAzimut (Num 0, Num 0) (Num (- 1), Num (- 1)) = Num 225"
  by (simp_all add: getAzimut_Num arctan_one arctan_minus)

lemma example_first_frame:
  "fst (handleDragEvent vertex_ops (pointer (Num 1, Num (- 1))) dragging) = Inr ()"
  "getGeometry (store (snd (handleDragEvent vertex_ops (pointer (Num 1, Num (- 1))) dragging)) 1) =
     Some [(Num 0, Num (- 1)), (Num 2, Num (- 3))]"
  "getGeometry (store (snd (handleDragEvent vertex_ops (pointer (Num 1, Num (- 1))) dragging)) 2) =
     Some [(Num 5, Num 5)]"
  by (simp_all add: example_defs example_azimuths angulo_en_radiane_Num)




text \<open>The pivot marker of the example, which is in the collection.\<close>

theorem pivot_marker_is_skipped_example:
  "getId (store dragging 0) = IdStr PIVOTE_1_ID \<and>
   Some 0 \<in> set (featuresEdit dragging) \<and>
   fst (handleDragEvent vertex_ops (pointer (Num 1, Num (- 1))) dragging) = Inr () \<and>
   store (snd (handleDragEvent vertex_ops (pointer (Num 1, Num (- 1))) dragging)) 0 =
     \<lparr>getId = IdStr PIVOTE_1_ID, getGeometry = Some [(Num 0, Num 0)]\<rparr> \<and>
   feature_original (snd (handleDragEvent vertex_ops (pointer (Num 1, Num (- 1))) dragging))
     PIVOTE_1_ID = None \<and>
   feature_original (snd (handleUpEvent (pointer (Num 1, Num (- 1))) dragging)) PIVOTE_1_ID = None"
  using pivot_marker_is_skipped [of dragging 0 vertex_ops "pointer (Num 1, Num (- 1))"]
    example_first_frame(1)
  by (simp add: dragging_def example_store_def featuresEdit_def PIVOTE_1_ID_def)

section \<open>Rotation from the cached baseline\<close>







section \<open>The identifier of the pivot marker\<close>

text \<open>
  Claim C10. \<^verbatim>\<open>refreshFeaturesPivotes\<close> gives the pivot marker the identifier
  \<^verbatim>\<open>'PIVOTE_1_ID'\<close>, and the handlers test that string only: a feature of the collection
  that is not the pivot marker but has this identifier keeps its geometry in a drag
  update and gets no entry in the snapshot cache, neither from a drag update nor from
  a release.
\<close>

theorem literal_id_excludes_any_feature:
  "(getExtent G (map (map_option (store this)) (featuresEdit this)) = Inr e \<longrightarrow>
      getId (store (snd (refreshFeaturesPivotes G this)) (pivote_1 this)) = IdStr PIVOTE_1_ID) \<and>
   (a \<noteq> pivote_1 this \<and> Some a \<in> set (featuresEdit this) \<and>
    getId (store this a) = IdStr PIVOTE_1_ID \<longrightarrow>
      getGeometry (store (snd (handleDragEvent G event this)) a) = getGeometry (store this a) \<and>
      feature_original (snd (handleDragEvent G event this)) PIVOTE_1_ID =
        feature_original this PIVOTE_1_ID \<and>
      feature_original (snd (handleUpEvent event this)) PIVOTE_1_ID =
        feature_original this PIVOTE_1_ID)"
proof (intro conjI impI)
  assume "getExtent G (map (map_option (store this)) (featuresEdit this)) = Inr e"
  from refreshFeaturesPivotes_geometry [OF this]
  show "getId (store (snd (refreshFeaturesPivotes G this)) (pivote_1 this)) = IdStr PIVOTE_1_ID"
    by simp
next
  assume a: "a \<noteq> pivote_1 this \<and> Some a \<in> set (featuresEdit this) \<and>
    getId (store this a) = IdStr PIVOTE_1_ID"
  then have p: "getId (store this a) = IdStr PIVOTE_1_ID" by simp
  from handleDragEvent_pivot [OF p, of G event]
  show "getGeometry (store (snd (handleDragEvent G event this)) a) = getGeometry (store this a)"
    by simp
  from handleDragEvent_pivot [OF p, of G event]
  show "feature_original (snd (handleDragEvent G event this)) PIVOTE_1_ID =
        feature_original this PIVOTE_1_ID" by simp
  from handleUpEvent_pivot [of event this]
  show "feature_original (snd (handleUpEvent event this)) PIVOTE_1_ID =
        feature_original this PIVOTE_1_ID" by simp
qed

text \<open>
  The feature at address 2 of the example: the drag update that turns \<open>F1\<close> leaves it
  where it is, and the release does not cache it.
\<close>

theorem literal_id_excludes_any_feature_example:
  "getId (store (snd (refreshFeaturesPivotes vertex_ops idle)) (pivote_1 idle)) =
     IdStr PIVOTE_1_ID \<and>
   2 \<noteq> pivote_1 dragging \<and> Some 2 \<in> set (featuresEdit dragging) \<and>
   getId (store dragging 2) = IdStr PIVOTE_1_ID \<and>
   fst (handleDragEvent vertex_ops (pointer (Num 1, Num (- 1))) dragging) = Inr () \<and>
   getGeometry (store (snd (handleDragEvent vertex_ops (pointer (Num 1, Num (- 1))) dragging)) 2) =
     Some [(Num 5, Num 5)] \<and>
   getGeometry (store (snd (handleDragEvent vertex_ops (pointer (Num 1, Num (- 1))) dragging)) 1) =
     Some [(Num 0, Num (- 1)), (Num 2, Num (- 3))] \<and>
   feature_original (snd (handleUpEvent (pointer (Num 1, Num (- 1))) dragging)) PIVOTE_1_ID = None"
  using literal_id_excludes_any_feature [of vertex_ops idle "(Num 0, Num 0, Num 5, Num 5)" 2
      "pointer (Num 1, Num (- 1))"]
    literal_id_excludes_any_feature [of vertex_ops dragging "(Num 0, Num 0, Num 5, Num 5)" 2
      "pointer (Num 1, Num (- 1))"]
    example_extent example_first_frame
  by (simp add: dragging_def example_store_def featuresEdit_def PIVOTE_1_ID_def)

end
